theory Spec2Isabelle
  imports Main
begin

section \<open>The page: document marker, local storage, system signal, console, events\<close>

text \<open>
  The theme switcher of \<^verbatim>\<open>src/js/theme-switcher.js\<close> is one immediately invoked
  function over browser state. That state is made explicit here:
  \<^item> \<open>data_theme\<close> is the \<^verbatim>\<open>data-theme\<close> attribute of \<^verbatim>\<open>document.documentElement\<close>
    (\<open>None\<close> when the attribute is absent, as \<^verbatim>\<open>getAttribute\<close> returns \<^verbatim>\<open>null\<close>);
  \<^item> \<open>localStorage\<close> is the key-value store together with the two ways it fails in a
    browser: every access raising (storage disabled or restricted), and a write raising
    when the keys and values the store would then hold are longer, taken together, than
    its quota;
  \<^item> \<open>matchMedia\<close> is \<open>None\<close> when \<^verbatim>\<open>window.matchMedia\<close> is undefined and otherwise
    \<open>Some b\<close>, with \<open>b\<close> the \<^verbatim>\<open>matches\<close> flag of \<^verbatim>\<open>(prefers-color-scheme: dark)\<close>;
  \<^item> \<open>console\<close> collects the messages given to \<^verbatim>\<open>console.warn\<close>, oldest first;
  \<^item> \<open>dispatched\<close> collects the \<^verbatim>\<open>detail.theme\<close> payload of every \<^verbatim>\<open>themechange\<close>
    event given to \<^verbatim>\<open>window.dispatchEvent\<close>, oldest first.
  A JavaScript exception is a value: every operation that touches storage returns
  \<open>exn + result\<close>, with \<open>Inl\<close> the exception that leaves the function. The one
  function that lets an exception out (the change listener) does so at its first
  statement, before it wrote anything, so \<open>Inl\<close> carries no page.
\<close>

datatype exn = SecurityError | QuotaExceededError

record storage =
  items :: "(string \<times> string) list"
  access_denied :: bool
  quota :: nat

text \<open>Writing a key replaces its value in place, or adds the pair at the end; the space
  a store uses is the length of all its keys and values.\<close>

fun put :: "string \<Rightarrow> string \<Rightarrow> (string \<times> string) list \<Rightarrow> (string \<times> string) list" where
  "put k v [] = [(k, v)]"
| "put k v ((k', v') # kvs) = (if k' = k then (k, v) # kvs else (k', v') # put k v kvs)"

fun used :: "(string \<times> string) list \<Rightarrow> nat" where
  "used [] = 0"
| "used ((k, v) # kvs) = length k + length v + used kvs"

definition quota_exceeded :: "string \<Rightarrow> string \<Rightarrow> storage \<Rightarrow> bool" where
  "quota_exceeded k v st = (quota st < used (put k v (items st)))"

record page =
  data_theme :: "string option"
  localStorage :: storage
  matchMedia :: "bool option"
  console :: "string list"
  dispatched :: "string list"

definition getItem :: "string \<Rightarrow> storage \<Rightarrow> exn + string option" where
  "getItem k st = (if access_denied st then Inl SecurityError else Inr (map_of (items st) k))"

definition setItem :: "string \<Rightarrow> string \<Rightarrow> storage \<Rightarrow> exn + storage" where
  "setItem k v st =
     (if access_denied st then Inl SecurityError
      else if quota_exceeded k v st then Inl QuotaExceededError
      else Inr (st\<lparr>items := put k v (items st)\<rparr>))"

definition console_warn :: "string \<Rightarrow> page \<Rightarrow> page" where
  "console_warn msg s = s\<lparr>console := console s @ [msg]\<rparr>"

text \<open>JavaScript's \<^verbatim>\<open>!v\<close> on the result of \<^verbatim>\<open>getItem\<close>: true on \<^verbatim>\<open>null\<close> and on the
  empty string, false on every other string.\<close>

fun falsy :: "string option \<Rightarrow> bool" where
  "falsy None = True"
| "falsy (Some v) = (v = [])"

section \<open>The theme switcher\<close>

definition STORAGE_KEY :: string where
  "STORAGE_KEY = ''sm-portal-theme''"

definition THEME_LIGHT :: string where
  "THEME_LIGHT = ''light''"

definition THEME_DARK :: string where
  "THEME_DARK = ''dark''"

text \<open>\<^verbatim>\<open>getStoredTheme\<close>: the read sits in a \<^verbatim>\<open>try\<close> whose \<^verbatim>\<open>catch\<close> warns and falls through
  to the system preference, as a stored value outside the two themes does.\<close>

definition system_fallback :: "page \<Rightarrow> string" where
  "system_fallback s =
     (case matchMedia s of
        None \<Rightarrow> THEME_LIGHT
      | Some m \<Rightarrow> if m then THEME_DARK else THEME_LIGHT)"

definition getStoredTheme :: "page \<Rightarrow> exn + (string \<times> page)" where
  "getStoredTheme s =
     (case getItem STORAGE_KEY (localStorage s) of
        Inr stored \<Rightarrow>
          (case stored of
             None \<Rightarrow> Inr (system_fallback s, s)
           | Some v \<Rightarrow>
               if v = THEME_DARK \<or> v = THEME_LIGHT then Inr (v, s)
               else Inr (system_fallback s, s))
      | Inl e \<Rightarrow>
          (let s' = console_warn ''localStorage not available for theme storage'' s
           in Inr (system_fallback s', s')))"

text \<open>\<^verbatim>\<open>saveTheme\<close>: the write sits in a \<^verbatim>\<open>try\<close> whose \<^verbatim>\<open>catch\<close> warns.\<close>

definition saveTheme :: "string \<Rightarrow> page \<Rightarrow> exn + page" where
  "saveTheme theme s =
     (case setItem STORAGE_KEY theme (localStorage s) of
        Inr st \<Rightarrow> Inr (s\<lparr>localStorage := st\<rparr>)
      | Inl e \<Rightarrow> Inr (console_warn ''Could not save theme to localStorage'' s))"

definition applyTheme :: "string \<Rightarrow> page \<Rightarrow> page" where
  "applyTheme theme s =
     (if theme = THEME_DARK then s\<lparr>data_theme := Some ''dark''\<rparr>
      else s\<lparr>data_theme := None\<rparr>)"

definition dispatch_themechange :: "string \<Rightarrow> page \<Rightarrow> page" where
  "dispatch_themechange theme s = s\<lparr>dispatched := dispatched s @ [theme]\<rparr>"

definition toggleTheme :: "page \<Rightarrow> exn + (string \<times> page)" where
  "toggleTheme s =
     (let currentTheme = data_theme s;
          newTheme = (if currentTheme = Some ''dark'' then THEME_LIGHT else THEME_DARK)
      in case saveTheme newTheme (applyTheme newTheme s) of
           Inl e \<Rightarrow> Inl e
         | Inr s' \<Rightarrow> Inr (newTheme, dispatch_themechange newTheme s'))"

text \<open>The \<^verbatim>\<open>keydown\<close> listener that \<^verbatim>\<open>initThemeSwitchers\<close> gives every switcher. The
  result carries the event's \<^verbatim>\<open>defaultPrevented\<close> flag beside the page.\<close>

definition keydown_listener :: "string \<Rightarrow> page \<Rightarrow> exn + (bool \<times> page)" where
  "keydown_listener key s =
     (if key = ''Enter'' \<or> key = '' ''
      then (case toggleTheme s of
              Inl e \<Rightarrow> Inl e
            | Inr (t, s') \<Rightarrow> Inr (True, s'))
      else Inr (False, s))"

text \<open>The \<^verbatim>\<open>click\<close> listener of every switcher.\<close>

definition click_listener :: "page \<Rightarrow> exn + (bool \<times> page)" where
  "click_listener s =
     (case toggleTheme s of
        Inl e \<Rightarrow> Inl e
      | Inr (t, s') \<Rightarrow> Inr (True, s'))"

text \<open>
  The document that \<^verbatim>\<open>initThemeSwitchers\<close> binds: a tree of elements, each with its
  class list, its attributes, and the number of \<^verbatim>\<open>click\<close> and \<^verbatim>\<open>keydown\<close> listeners
  this script has given it (every \<^verbatim>\<open>addEventListener\<close> call passes a fresh function, so
  each call adds one). \<^verbatim>\<open>querySelectorAll('.theme-switcher')\<close> reaches every element of
  the tree that carries the class; \<open>bind_switcher\<close> is the body of the \<^verbatim>\<open>forEach\<close>.
\<close>

record element =
  classes :: "string list"
  attributes :: "(string \<times> string) list"
  click_listeners :: nat
  keydown_listeners :: nat

datatype node = Node element "node list"

definition is_switcher :: "element \<Rightarrow> bool" where
  "is_switcher el = (''theme-switcher'' \<in> set (classes el))"

definition bind_switcher :: "element \<Rightarrow> element" where
  "bind_switcher el =
     el\<lparr>classes := removeAll ''hidden'' (classes el),
        attributes := put ''tabindex'' ''0''
                        (put ''aria-label'' ''Toggle dark mode''
                          (put ''role'' ''button'' (attributes el))),
        click_listeners := Suc (click_listeners el),
        keydown_listeners := Suc (keydown_listeners el)\<rparr>"

definition bind_if_switcher :: "element \<Rightarrow> element" where
  "bind_if_switcher el = (if is_switcher el then bind_switcher el else el)"

fun initThemeSwitchers :: "node \<Rightarrow> node" where
  "initThemeSwitchers (Node el kids) = Node (bind_if_switcher el) (map initThemeSwitchers kids)"

text \<open>
  A \<^verbatim>\<open>keydown\<close> event, as the browser delivers it. Its target is addressed by the child
  indices that lead to it from the root; its path is the target followed by the
  target's ancestors, innermost first. The listeners are registered for the bubbling
  phase and nothing in the script stops propagation, so the listeners of every element
  on the path run, in path order, on the page the one before left. The event is
  cancelled once any listener called \<^verbatim>\<open>preventDefault\<close>, and the browser performs the
  default action of the key, whatever it is, only on an event that was not cancelled.
\<close>

fun event_path :: "node \<Rightarrow> nat list \<Rightarrow> element list option" where
  "event_path (Node el kids) [] = Some [el]"
| "event_path (Node el kids) (i # rest) =
     (if i < length kids
      then map_option (\<lambda>inner. inner @ [el]) (event_path (kids ! i) rest)
      else None)"

fun run_keydown_listeners :: "nat \<Rightarrow> string \<Rightarrow> bool \<times> page \<Rightarrow> exn + (bool \<times> page)" where
  "run_keydown_listeners 0 key (cancelled, s) = Inr (cancelled, s)"
| "run_keydown_listeners (Suc n) key (cancelled, s) =
     (case keydown_listener key s of
        Inl e \<Rightarrow> Inl e
      | Inr (prevented, s') \<Rightarrow> run_keydown_listeners n key (cancelled \<or> prevented, s'))"

fun bubble_keydown :: "element list \<Rightarrow> string \<Rightarrow> bool \<times> page \<Rightarrow> exn + (bool \<times> page)" where
  "bubble_keydown [] key cs = Inr cs"
| "bubble_keydown (el # els) key cs =
     (case run_keydown_listeners (keydown_listeners el) key cs of
        Inl e \<Rightarrow> Inl e
      | Inr cs' \<Rightarrow> bubble_keydown els key cs')"

definition keydown_event ::
    "node \<Rightarrow> nat list \<Rightarrow> string \<Rightarrow> (page \<Rightarrow> exn + page) \<Rightarrow> page \<Rightarrow> exn + (bool \<times> page)" where
  "keydown_event doc target key default_action s =
     (case event_path doc target of
        None \<Rightarrow> Inr (False, s)
      | Some els \<Rightarrow>
          (case bubble_keydown els key (False, s) of
             Inl e \<Rightarrow> Inl e
           | Inr (cancelled, s') \<Rightarrow>
               if cancelled then Inr (True, s')
               else (case default_action s' of
                       Inl e \<Rightarrow> Inl e
                     | Inr s'' \<Rightarrow> Inr (False, s''))))"

text \<open>The \<^verbatim>\<open>change\<close> listener that \<^verbatim>\<open>watchSystemTheme\<close> gives the media query; its
  argument is \<^verbatim>\<open>e.matches\<close>. The read of storage is outside any \<^verbatim>\<open>try\<close>.\<close>

definition system_change_listener :: "bool \<Rightarrow> page \<Rightarrow> exn + page" where
  "system_change_listener matches s =
     (case getItem STORAGE_KEY (localStorage s) of
        Inl e \<Rightarrow> Inl e
      | Inr storedTheme \<Rightarrow>
          if falsy storedTheme
          then Inr (applyTheme (if matches then THEME_DARK else THEME_LIGHT) s)
          else Inr s)"

text \<open>\<^verbatim>\<open>watchSystemTheme\<close> registers the listener only where \<^verbatim>\<open>window.matchMedia\<close> exists.\<close>

definition watchSystemTheme :: "page \<Rightarrow> (bool \<Rightarrow> page \<Rightarrow> exn + page) option" where
  "watchSystemTheme s =
     (case matchMedia s of
        None \<Rightarrow> None
      | Some m \<Rightarrow> Some system_change_listener)"

text \<open>The statement that runs at load: \<^verbatim>\<open>applyTheme(getStoredTheme())\<close>.\<close>

definition startup :: "page \<Rightarrow> exn + page" where
  "startup s =
     (case getStoredTheme s of
        Inl e \<Rightarrow> Inl e
      | Inr (t, s') \<Rightarrow> Inr (applyTheme t s'))"

text \<open>The object \<^verbatim>\<open>window.ThemeSwitcher\<close>: \<^verbatim>\<open>toggle\<close> is \<open>toggleTheme\<close> itself.\<close>

definition setTheme :: "string \<Rightarrow> page \<Rightarrow> exn + page" where
  "setTheme theme s = saveTheme theme (applyTheme theme s)"

definition getTheme :: "page \<Rightarrow> string" where
  "getTheme s = (if data_theme s = Some ''dark'' then THEME_DARK else THEME_LIGHT)"

text \<open>Two calls of \<^verbatim>\<open>toggle()\<close> in succession; the result is that of the second.\<close>

definition toggle_twice :: "page \<Rightarrow> exn + (string \<times> page)" where
  "toggle_twice s =
     (case toggleTheme s of
        Inl e \<Rightarrow> Inl e
      | Inr (t, s') \<Rightarrow> toggleTheme s')"

text \<open>The marker, when present, reads exactly \<^verbatim>\<open>dark\<close>.\<close>

definition marker_ok :: "page \<Rightarrow> bool" where
  "marker_ok s = (case data_theme s of None \<Rightarrow> True | Some v \<Rightarrow> v = ''dark'')"

text \<open>The value persisted under the key, and the page with that key cleared from
  outside (the script itself never removes it).\<close>

definition stored_theme :: "page \<Rightarrow> string option" where
  "stored_theme s = map_of (items (localStorage s)) STORAGE_KEY"


text \<open>A store within its quota, as every store a browser hands out is, and whether a
  store takes the write of a theme.\<close>

definition within_quota :: "storage \<Rightarrow> bool" where
  "within_quota st = (used (items st) \<le> quota st)"

definition accepts :: "string \<Rightarrow> storage \<Rightarrow> bool" where
  "accepts theme st = (case setItem STORAGE_KEY theme st of Inl e \<Rightarrow> False | Inr st' \<Rightarrow> True)"

text \<open>A page for examples: no marker, an empty store that works and has room, a system
  that prefers light, nothing logged, nothing dispatched.\<close>

definition store0 :: storage where
  "store0 = \<lparr>items = [], access_denied = False, quota = 5242880\<rparr>"

definition page0 :: page where
  "page0 = \<lparr>data_theme = None, localStorage = store0, matchMedia = Some False,
            console = [], dispatched = []\<rparr>"

text \<open>The same page with a value persisted under the key, and with storage that
  raises on every access.\<close>

definition page_storing :: "string \<Rightarrow> page" where
  "page_storing v = page0\<lparr>localStorage := store0\<lparr>items := [(STORAGE_KEY, v)]\<rparr>\<rparr>"

definition page_denied :: page where
  "page_denied = page0\<lparr>localStorage := store0\<lparr>access_denied := True\<rparr>\<rparr>"

text \<open>The empty store with room for the key and \<^verbatim>\<open>dark\<close> (19 characters) but not for
  the key and \<^verbatim>\<open>light\<close> (20 characters).\<close>

definition page_tight :: page where
  "page_tight = page0\<lparr>localStorage := store0\<lparr>quota := 19\<rparr>\<rparr>"

text \<open>Documents for examples, as parsed and before the script ran: a root with one
  switcher, and a root with a switcher inside a switcher (say a link carrying the class
  inside a list item carrying it too).\<close>

definition plain_el :: element where
  "plain_el = \<lparr>classes = [], attributes = [], click_listeners = 0, keydown_listeners = 0\<rparr>"

definition switcher_el :: element where
  "switcher_el = \<lparr>classes = [''theme-switcher'', ''hidden''], attributes = [],
                   click_listeners = 0, keydown_listeners = 0\<rparr>"

definition single_doc :: node where
  "single_doc = Node plain_el [Node switcher_el []]"

definition nested_doc :: node where
  "nested_doc = Node plain_el [Node switcher_el [Node switcher_el []]]"

section \<open>Basic facts\<close>

lemma map_of_put: "map_of (put k v kvs) = (map_of kvs)(k \<mapsto> v)"
  by (induction kvs) (auto simp: fun_eq_iff)

lemma put_put: "put k v (put k w kvs) = put k v kvs"
  by (induction kvs) auto

lemma put_same: "map_of kvs k = Some v \<Longrightarrow> put k v kvs = kvs"
  by (induction kvs) (auto split: if_splits)


lemma theme_consts_distinct: "THEME_DARK \<noteq> THEME_LIGHT"
  by (simp add: THEME_DARK_def THEME_LIGHT_def)

lemma saveTheme_returns: "\<exists>s'. saveTheme t s = Inr s'"
  by (simp add: saveTheme_def split: sum.splits)

lemma saveTheme_data_theme: "saveTheme t s = Inr s' \<Longrightarrow> data_theme s' = data_theme s"
  by (auto simp: saveTheme_def console_warn_def split: sum.splits)

lemma getStoredTheme_returns: "\<exists>t s'. getStoredTheme s = Inr (t, s')"
  by (simp add: getStoredTheme_def Let_def split: sum.splits option.splits)

lemma toggleTheme_returns: "\<exists>t s'. toggleTheme s = Inr (t, s')"
  using saveTheme_returns [of "if data_theme s = Some ''dark'' then THEME_LIGHT else THEME_DARK"
      "applyTheme (if data_theme s = Some ''dark'' then THEME_LIGHT else THEME_DARK) s"]
  by (auto simp: toggleTheme_def Let_def)

lemma setTheme_returns: "\<exists>s'. setTheme t s = Inr s'"
  by (simp add: setTheme_def saveTheme_returns)

lemma startup_returns: "\<exists>s'. startup s = Inr s'"
  using getStoredTheme_returns [of s] by (auto simp: startup_def)

lemma accepts_iff:
  "accepts t st = (\<not> access_denied st \<and> \<not> quota_exceeded STORAGE_KEY t st)"
  by (simp add: accepts_def setItem_def)

lemma saveTheme_accepted:
  "accepts t (localStorage s) \<Longrightarrow>
   saveTheme t s
     = Inr (s\<lparr>localStorage := (localStorage s)
                 \<lparr>items := put STORAGE_KEY t (items (localStorage s))\<rparr>\<rparr>)"
  by (simp add: accepts_iff saveTheme_def setItem_def)

lemma saveTheme_refused:
  "\<not> accepts t (localStorage s) \<Longrightarrow>
   saveTheme t s = Inr (console_warn ''Could not save theme to localStorage'' s)"
  by (auto simp: accepts_iff saveTheme_def setItem_def)

lemma toggleTheme_unfold:
  "toggleTheme s =
     (if data_theme s = Some ''dark''
      then map_sum id (\<lambda>s'. (THEME_LIGHT, dispatch_themechange THEME_LIGHT s'))
             (saveTheme THEME_LIGHT (applyTheme THEME_LIGHT s))
      else map_sum id (\<lambda>s'. (THEME_DARK, dispatch_themechange THEME_DARK s'))
             (saveTheme THEME_DARK (applyTheme THEME_DARK s)))"
  by (auto simp: toggleTheme_def Let_def split: sum.splits)

lemma toggleTheme_step:
  "\<exists>s1. toggleTheme s = Inr (getTheme s1, s1)
        \<and> getTheme s1 \<noteq> getTheme s
        \<and> data_theme s1 = (if data_theme s = Some ''dark'' then None else Some ''dark'')
        \<and> localStorage s1 =
            (if accepts (getTheme s1) (localStorage s)
             then (localStorage s)
                    \<lparr>items := put STORAGE_KEY (getTheme s1) (items (localStorage s))\<rparr>
             else localStorage s)
        \<and> dispatched s1 = dispatched s @ [getTheme s1]"
proof -
  define n where "n = (if data_theme s = Some ''dark'' then THEME_LIGHT else THEME_DARK)"
  define a where "a = applyTheme n s"
  have la: "localStorage a = localStorage s" and da: "dispatched a = dispatched s"
    by (simp_all add: a_def applyTheme_def)
  have ma: "data_theme a = (if data_theme s = Some ''dark'' then None else Some ''dark'')"
    by (simp add: a_def n_def applyTheme_def THEME_DARK_def THEME_LIGHT_def)
  have tog: "toggleTheme s
      = (case saveTheme n a of Inl e \<Rightarrow> Inl e | Inr s' \<Rightarrow> Inr (n, dispatch_themechange n s'))"
    unfolding n_def a_def by (simp add: toggleTheme_def Let_def)
  show ?thesis
  proof (cases "accepts n (localStorage s)")
    case True
    define s1 where "s1 = dispatch_themechange n
        (a\<lparr>localStorage := (localStorage s)\<lparr>items := put STORAGE_KEY n (items (localStorage s))\<rparr>\<rparr>)"
    from True have "saveTheme n a
        = Inr (a\<lparr>localStorage := (localStorage s)\<lparr>items := put STORAGE_KEY n (items (localStorage s))\<rparr>\<rparr>)"
      using saveTheme_accepted [of n a] by (simp add: la)
    with tog have t: "toggleTheme s = Inr (n, s1)"
      by (simp add: s1_def)
    have d: "data_theme s1 = (if data_theme s = Some ''dark'' then None else Some ''dark'')"
      by (simp add: s1_def dispatch_themechange_def ma)
    then have g: "getTheme s1 = n"
      by (simp add: getTheme_def n_def)
    have ne: "n \<noteq> getTheme s"
      by (simp add: getTheme_def n_def THEME_DARK_def THEME_LIGHT_def)
    have l: "localStorage s1
        = (localStorage s)\<lparr>items := put STORAGE_KEY n (items (localStorage s))\<rparr>"
      by (simp add: s1_def dispatch_themechange_def)
    have e: "dispatched s1 = dispatched s @ [n]"
      by (simp add: s1_def dispatch_themechange_def da)
    from t d g ne l e True show ?thesis
      by auto
  next
    case False
    define s1 where "s1 = dispatch_themechange n
        (console_warn ''Could not save theme to localStorage'' a)"
    from False have "saveTheme n a = Inr (console_warn ''Could not save theme to localStorage'' a)"
      using saveTheme_refused [of n a] by (simp add: la)
    with tog have t: "toggleTheme s = Inr (n, s1)"
      by (simp add: s1_def)
    have d: "data_theme s1 = (if data_theme s = Some ''dark'' then None else Some ''dark'')"
      by (simp add: s1_def dispatch_themechange_def console_warn_def ma)
    then have g: "getTheme s1 = n"
      by (simp add: getTheme_def n_def)
    have ne: "n \<noteq> getTheme s"
      by (simp add: getTheme_def n_def THEME_DARK_def THEME_LIGHT_def)
    have l: "localStorage s1 = localStorage s"
      by (simp add: s1_def dispatch_themechange_def console_warn_def la)
    have e: "dispatched s1 = dispatched s @ [n]"
      by (simp add: s1_def dispatch_themechange_def console_warn_def da)
    from t d g ne l e False show ?thesis
      by auto
  qed
qed

lemma getTheme_two_valued: "getTheme s = ''dark'' \<or> getTheme s = ''light''"
  by (simp add: getTheme_def THEME_DARK_def THEME_LIGHT_def)

lemma toggleTheme_effect:
  "\<exists>s'. toggleTheme s = Inr (getTheme s', s')
        \<and> getTheme s' \<noteq> getTheme s
        \<and> dispatched s' = dispatched s @ [getTheme s']"
  using toggleTheme_step [of s] by blast

lemma toggle_twice_tight_quota:
  "toggle_twice page_tight
     = Inr (''light'',
            page_tight\<lparr>localStorage := (localStorage page_tight)\<lparr>items := [(STORAGE_KEY, ''dark'')]\<rparr>,
                       console := [''Could not save theme to localStorage''],
                       dispatched := [''dark'', ''light'']\<rparr>)"
  by (simp add: toggle_twice_def toggleTheme_def saveTheme_def setItem_def quota_exceeded_def
      applyTheme_def dispatch_themechange_def console_warn_def page_tight_def page0_def
      store0_def STORAGE_KEY_def THEME_DARK_def THEME_LIGHT_def Let_def)

lemma system_change_follows_when_falsy:
  "getItem STORAGE_KEY (localStorage s) = Inr v \<Longrightarrow> falsy v \<Longrightarrow>
   system_change_listener m s = Inr (applyTheme (if m then THEME_DARK else THEME_LIGHT) s)"
  by (simp add: system_change_listener_def)

lemma keydown_listener_effect:
  "keydown_listener key s =
     (if key = ''Enter'' \<or> key = '' ''
      then (case toggleTheme s of Inl e \<Rightarrow> Inl e | Inr (t, s') \<Rightarrow> Inr (True, s'))
      else Inr (False, s))"
  by (simp add: keydown_listener_def)

lemma run_keydown_listeners_add:
  "run_keydown_listeners (m + n) key cs =
     (case run_keydown_listeners m key cs of
        Inl e \<Rightarrow> Inl e
      | Inr cs' \<Rightarrow> run_keydown_listeners n key cs')"
proof (induction m arbitrary: cs)
  case 0
  show ?case by (cases cs) simp
next
  case (Suc m)
  show ?case
    by (cases cs) (simp add: Suc.IH split: sum.splits prod.splits)
qed

lemma bubble_keydown_count:
  "bubble_keydown els key cs
     = run_keydown_listeners (sum_list (map keydown_listeners els)) key cs"
proof (induction els arbitrary: cs)
  case Nil
  show ?case by (cases cs) simp
next
  case (Cons el els)
  show ?case
    by (simp add: run_keydown_listeners_add Cons.IH split: sum.splits)
qed

lemma event_path_initThemeSwitchers:
  "event_path (initThemeSwitchers doc) target
     = map_option (map bind_if_switcher) (event_path doc target)"
proof (induction target arbitrary: doc)
  case Nil
  show ?case by (cases doc) simp
next
  case (Cons i rest)
  show ?case
    by (cases doc) (simp add: Cons.IH option.map_comp comp_def)
qed

lemma keydown_listeners_after_binding:
  "\<forall>el \<in> set els. keydown_listeners el = 0 \<Longrightarrow>
   sum_list (map keydown_listeners (map bind_if_switcher els))
     = length (filter is_switcher els)"
  by (induction els) (simp_all add: bind_if_switcher_def bind_switcher_def)

section \<open>Claims\<close>

text \<open>
  C7. \<open>applyTheme\<close> is idempotent: for every theme value \<open>t\<close>, applying it twice leaves the
  page (and so the marker) as applying it once does; and applying \<^verbatim>\<open>light\<close> leaves the
  marker absent after the first call and after the second.
\<close>

theorem applyTheme_idempotent:
  "applyTheme t (applyTheme t s) = applyTheme t s
   \<and> data_theme (applyTheme THEME_LIGHT s) = None
   \<and> data_theme (applyTheme THEME_LIGHT (applyTheme THEME_LIGHT s)) = None"
  by (simp add: applyTheme_def THEME_DARK_def THEME_LIGHT_def)

text \<open>
  C1, as stated, fails. On a page with no marker and nothing persisted, two calls of
  \<^verbatim>\<open>toggle()\<close> leave the marker absent again, but storage then holds \<^verbatim>\<open>light\<close>: each
  call writes the theme it applied, and nothing in the script removes the key.
\<close>

theorem toggle_twice_storage_counterexample:
  "toggle_twice page0
     = Inr (''light'', (page_storing ''light'')\<lparr>dispatched := [''dark'', ''light'']\<rparr>)
   \<and> data_theme (page_storing ''light'') = data_theme page0
   \<and> stored_theme (page_storing ''light'') = Some ''light''
   \<and> stored_theme page0 = None"
  by (simp add: toggle_twice_def toggleTheme_def saveTheme_def setItem_def quota_exceeded_def
      applyTheme_def dispatch_themechange_def stored_theme_def page_storing_def page0_def
      store0_def STORAGE_KEY_def THEME_DARK_def THEME_LIGHT_def Let_def)

text \<open>
  C1, amended. On every page two calls of \<^verbatim>\<open>toggle()\<close> in succession return; the first
  applies the other theme, the second returns the theme applied at the start, and the
  applied theme is then the original one. The marker itself is the original one whenever
  it was absent or exactly \<^verbatim>\<open>dark\<close>. Each call persists the theme it applied when the
  store takes that write and leaves the persisted value alone when it does not. Storage is
  the original storage when the persisted value was the theme applied at the start and the
  store was within its quota.
\<close>

theorem toggle_twice_restores:
  "\<exists>s1 s'. toggleTheme s = Inr (getTheme s1, s1)
     \<and> toggleTheme s1 = Inr (getTheme s, s')
     \<and> toggle_twice s = Inr (getTheme s, s')
     \<and> getTheme s1 \<noteq> getTheme s
     \<and> getTheme s' = getTheme s
     \<and> (marker_ok s \<longrightarrow> data_theme s' = data_theme s)
     \<and> stored_theme s1 =
         (if accepts (getTheme s1) (localStorage s) then Some (getTheme s1) else stored_theme s)
     \<and> stored_theme s' =
         (if accepts (getTheme s) (localStorage s1) then Some (getTheme s) else stored_theme s1)
     \<and> (stored_theme s = Some (getTheme s) \<and> within_quota (localStorage s)
          \<longrightarrow> localStorage s' = localStorage s)"
proof -
  obtain s1 where t1: "toggleTheme s = Inr (getTheme s1, s1)"
    and n1: "getTheme s1 \<noteq> getTheme s"
    and d1: "data_theme s1 = (if data_theme s = Some ''dark'' then None else Some ''dark'')"
    and l1: "localStorage s1 =
            (if accepts (getTheme s1) (localStorage s)
             then (localStorage s)
                    \<lparr>items := put STORAGE_KEY (getTheme s1) (items (localStorage s))\<rparr>
             else localStorage s)"
    using toggleTheme_step [of s] by blast
  obtain s' where t2': "toggleTheme s1 = Inr (getTheme s', s')"
    and n2: "getTheme s' \<noteq> getTheme s1"
    and d2: "data_theme s' = (if data_theme s1 = Some ''dark'' then None else Some ''dark'')"
    and l2': "localStorage s' =
            (if accepts (getTheme s') (localStorage s1)
             then (localStorage s1)
                    \<lparr>items := put STORAGE_KEY (getTheme s') (items (localStorage s1))\<rparr>
             else localStorage s1)"
    using toggleTheme_step [of s1] by blast
  have g: "getTheme s' = getTheme s"
    using n1 n2 getTheme_two_valued [of s] getTheme_two_valued [of s1]
      getTheme_two_valued [of s'] by auto
  note t2 = t2' [unfolded g] and l2 = l2' [unfolded g]
  have tt: "toggle_twice s = Inr (getTheme s, s')"
    by (simp add: toggle_twice_def t1 t2)
  have m: "marker_ok s \<longrightarrow> data_theme s' = data_theme s"
    by (cases "data_theme s") (simp_all add: marker_ok_def d1 d2)
  have st1: "stored_theme s1 =
         (if accepts (getTheme s1) (localStorage s) then Some (getTheme s1) else stored_theme s)"
    by (simp add: stored_theme_def l1 map_of_put)
  have st2: "stored_theme s' =
         (if accepts (getTheme s) (localStorage s1) then Some (getTheme s) else stored_theme s1)"
    by (simp add: stored_theme_def l2 map_of_put)
  have restored: "localStorage s' = localStorage s"
    if st: "stored_theme s = Some (getTheme s)" and w: "within_quota (localStorage s)"
  proof -
    let ?K = STORAGE_KEY and ?st = "localStorage s"
    from st have same: "put ?K (getTheme s) (items ?st) = items ?st"
      by (simp add: stored_theme_def put_same)
    show ?thesis
    proof (cases "accepts (getTheme s1) ?st")
      case True
      then have l1': "localStorage s1 = ?st\<lparr>items := put ?K (getTheme s1) (items ?st)\<rparr>"
        by (simp add: l1)
      from True have nd: "\<not> access_denied ?st"
        by (simp add: accepts_iff)
      have "accepts (getTheme s) (localStorage s1)"
        using nd w by (simp add: accepts_iff quota_exceeded_def l1' put_put same within_quota_def)
      then have "localStorage s' = ?st\<lparr>items := put ?K (getTheme s) (items ?st)\<rparr>"
        by (simp add: l2 l1' put_put)
      with same show ?thesis
        by simp
    next
      case False
      then have l1': "localStorage s1 = ?st"
        by (simp add: l1)
      show ?thesis
      proof (cases "accepts (getTheme s) ?st")
        case True
        then have "localStorage s' = ?st\<lparr>items := put ?K (getTheme s) (items ?st)\<rparr>"
          by (simp add: l2 l1')
        with same show ?thesis
          by simp
      next
        case False
        then show ?thesis
          by (simp add: l2 l1')
      qed
    qed
  qed
  from t1 t2 tt n1 g m st1 st2 restored show ?thesis
    by blast
qed

text \<open>The amended C1 at a page whose marker and persisted value are both \<^verbatim>\<open>dark\<close>.\<close>

theorem toggle_twice_restores_witness:
  "marker_ok (applyTheme THEME_DARK (page_storing ''dark''))
   \<and> stored_theme (applyTheme THEME_DARK (page_storing ''dark''))
       = Some (getTheme (applyTheme THEME_DARK (page_storing ''dark'')))
   \<and> within_quota (localStorage (applyTheme THEME_DARK (page_storing ''dark'')))
   \<and> (\<exists>s'. toggle_twice (applyTheme THEME_DARK (page_storing ''dark'')) = Inr (''dark'', s')
         \<and> data_theme s' = Some ''dark''
         \<and> localStorage s' = localStorage (page_storing ''dark''))"
proof -
  define p where "p = applyTheme THEME_DARK (page_storing ''dark'')"
  have m: "marker_ok p"
    by (simp add: p_def marker_ok_def applyTheme_def)
  have g: "getTheme p = ''dark''"
    by (simp add: p_def getTheme_def applyTheme_def THEME_DARK_def)
  have d: "data_theme p = Some ''dark''"
    by (simp add: p_def applyTheme_def)
  have st: "stored_theme p = Some (getTheme p)"
    unfolding g
    by (simp add: p_def stored_theme_def applyTheme_def page_storing_def page0_def store0_def)
  have w: "within_quota (localStorage p)"
    by (simp add: p_def within_quota_def applyTheme_def page_storing_def page0_def store0_def
        STORAGE_KEY_def)
  have l: "localStorage p = localStorage (page_storing ''dark'')"
    by (simp add: p_def applyTheme_def)
  from toggle_twice_restores [of p] obtain s'
    where "toggle_twice p = Inr (getTheme p, s')"
      and "marker_ok p \<longrightarrow> data_theme s' = data_theme p"
      and "stored_theme p = Some (getTheme p) \<and> within_quota (localStorage p)
          \<longrightarrow> localStorage s' = localStorage p"
    by blast
  with m st w g d l have "toggle_twice p = Inr (''dark'', s') \<and> data_theme s' = Some ''dark''
         \<and> localStorage s' = localStorage (page_storing ''dark'')"
    by simp
  with m st w show ?thesis
    unfolding p_def by blast
qed

text \<open>
  C2 at a malformed persisted value. With \<^verbatim>\<open>blue\<close> persisted and no marker, a change
  notification that reports a preference for dark returns the page as it was: the marker
  stays absent, where the claim has \<^verbatim>\<open>dark\<close> applied. The listener tests the stored value
  for truthiness only, while \<open>getStoredTheme\<close> on the same storage and the same system
  preference takes \<^verbatim>\<open>blue\<close> for no value and resolves to \<^verbatim>\<open>dark\<close>.
\<close>

theorem system_change_ignored_on_malformed:
  "system_change_listener True (page_storing ''blue'') = Inr (page_storing ''blue'')
   \<and> data_theme (page_storing ''blue'') = None
   \<and> map_sum id fst (getStoredTheme ((page_storing ''blue'')\<lparr>matchMedia := Some True\<rparr>))
        = Inr ''dark''"
  by (simp add: system_change_listener_def getStoredTheme_def getItem_def system_fallback_def
      page_storing_def page0_def store0_def THEME_DARK_def THEME_LIGHT_def)

text \<open>
  C3 at the change listener. With storage that raises on every access, a change
  notification leaves the listener with the exception \<open>SecurityError\<close> and nothing is
  logged, where the claim has every storage failure caught inside the component.
  On the same page \<open>getStoredTheme\<close> and \<open>saveTheme\<close> catch the failure: the first
  resolves to \<^verbatim>\<open>light\<close>, the second returns with its warning logged.
\<close>

theorem system_change_listener_throws:
  "system_change_listener True page_denied = Inl SecurityError
   \<and> map_sum id fst (getStoredTheme page_denied) = Inr ''light''
   \<and> map_sum id console (saveTheme ''dark'' page_denied)
        = Inr [''Could not save theme to localStorage'']"
  by (simp add: system_change_listener_def getStoredTheme_def saveTheme_def getItem_def
      setItem_def system_fallback_def console_warn_def page_denied_def page0_def store0_def
      THEME_LIGHT_def Let_def)

text \<open>
  C4. \<open>getStoredTheme\<close> always returns, never raises, and its result is the persisted
  value when the read succeeds with exactly \<^verbatim>\<open>dark\<close> or \<^verbatim>\<open>light\<close>; in every other case
  (nothing persisted, another value persisted, the read raising) it is \<^verbatim>\<open>dark\<close> when the
  system signal exists and reports a preference for dark, and \<^verbatim>\<open>light\<close> otherwise. So
  the result is one of the two themes. The marker and storage are left as they were.
\<close>

theorem getStoredTheme_resolves:
  "\<exists>s'. getStoredTheme s =
          Inr (if getItem STORAGE_KEY (localStorage s) = Inr (Some ''dark'') then ''dark''
               else if getItem STORAGE_KEY (localStorage s) = Inr (Some ''light'') then ''light''
               else if matchMedia s = Some True then ''dark'' else ''light'', s')
        \<and> data_theme s' = data_theme s \<and> localStorage s' = localStorage s"
  by (auto simp: getStoredTheme_def system_fallback_def console_warn_def Let_def
      THEME_DARK_def THEME_LIGHT_def split: sum.splits option.splits)

text \<open>
  C5. When reading storage gives \<^verbatim>\<open>light\<close>, a change notification that reports a
  preference for dark returns the page unchanged, the marker included.
\<close>

theorem stored_light_overrides_system:
  "getItem STORAGE_KEY (localStorage s) = Inr (Some ''light'') \<Longrightarrow>
   system_change_listener True s = Inr s"
  by (simp add: system_change_listener_def)

text \<open>C5 at a page with \<^verbatim>\<open>light\<close> persisted and no marker.\<close>

theorem stored_light_overrides_system_witness:
  "getItem STORAGE_KEY (localStorage (page_storing ''light'')) = Inr (Some ''light'')
   \<and> system_change_listener True (page_storing ''light'') = Inr (page_storing ''light'')
   \<and> data_theme (page_storing ''light'') = None"
proof -
  have h: "getItem STORAGE_KEY (localStorage (page_storing ''light'')) = Inr (Some ''light'')"
    by (simp add: getItem_def page_storing_def page0_def store0_def)
  have "data_theme (page_storing ''light'') = None"
    by (simp add: page_storing_def page0_def)
  with h stored_light_overrides_system [OF h] show ?thesis
    by simp
qed

text \<open>
  C6. For \<open>t\<close> one of \<^verbatim>\<open>light\<close> and \<^verbatim>\<open>dark\<close>, on storage that neither refuses access nor
  is full, \<open>saveTheme t\<close> returns and \<open>getStoredTheme\<close> on the resulting page returns \<open>t\<close>.
\<close>

theorem save_then_resolve:
  assumes "t = ''light'' \<or> t = ''dark''"
    and "\<not> access_denied (localStorage s)"
    and "\<not> quota_exceeded STORAGE_KEY t (localStorage s)"
  shows "\<exists>s1. saveTheme t s = Inr s1 \<and> getStoredTheme s1 = Inr (t, s1)"
  using assms
  by (auto simp: saveTheme_def setItem_def getStoredTheme_def getItem_def map_of_put
      THEME_DARK_def THEME_LIGHT_def)

text \<open>C6 at the empty working store, persisting \<^verbatim>\<open>dark\<close>.\<close>

theorem save_then_resolve_witness:
  "\<not> access_denied (localStorage page0)
   \<and> \<not> quota_exceeded STORAGE_KEY ''dark'' (localStorage page0)
   \<and> (\<exists>s1. saveTheme ''dark'' page0 = Inr s1 \<and> getStoredTheme s1 = Inr (''dark'', s1))"
proof -
  have a: "\<not> access_denied (localStorage page0)"
    and q: "\<not> quota_exceeded STORAGE_KEY ''dark'' (localStorage page0)"
    by (simp_all add: quota_exceeded_def page0_def store0_def STORAGE_KEY_def)
  have t: "''dark'' = ''light'' \<or> ''dark'' = ''dark''"
    by simp
  from save_then_resolve [OF t a q] a q show ?thesis
    by simp
qed

text \<open>
  C8, as stated, fails. In a document with a switcher inside a switcher, bound by
  \<^verbatim>\<open>initThemeSwitchers\<close>, one \<^verbatim>\<open>Enter\<close> keydown on the inner switcher runs the listener of
  the inner and then of the outer element: the theme is toggled twice, two
  \<^verbatim>\<open>themechange\<close> events are dispatched, and the applied theme ends as it began.
\<close>

theorem keydown_nested_counterexample:
  "keydown_event (initThemeSwitchers nested_doc) [0, 0] ''Enter'' Inr page0
     = Inr (True, (page_storing ''light'')\<lparr>dispatched := [''dark'', ''light'']\<rparr>)
   \<and> getTheme ((page_storing ''light'')\<lparr>dispatched := [''dark'', ''light'']\<rparr>)
       = getTheme page0"
  by (simp add: keydown_event_def nested_doc_def plain_el_def switcher_el_def
      bind_if_switcher_def is_switcher_def bind_switcher_def keydown_listener_def
      toggleTheme_def saveTheme_def setItem_def quota_exceeded_def applyTheme_def
      dispatch_themechange_def getTheme_def page_storing_def page0_def store0_def
      STORAGE_KEY_def THEME_DARK_def THEME_LIGHT_def Let_def)

text \<open>
  C8, amended. Take a keydown event in a document bound by \<^verbatim>\<open>initThemeSwitchers\<close>, none
  of whose elements on the event's path had a keydown listener before, and with exactly
  one switcher on that path (the target or one ancestor, no switcher inside another).
  When the key is \<^verbatim>\<open>Enter\<close> or the space, the event is cancelled, so the default action
  does not run, and the page is that of one call of \<open>toggleTheme\<close>: the applied theme
  changed and one \<^verbatim>\<open>themechange\<close> event was added. For every other key the listener
  leaves the page alone and the event is not cancelled: the outcome is that of the
  browser's default action.
\<close>

theorem keydown_event_single_switcher:
  assumes "event_path doc target = Some els"
    and "\<forall>el \<in> set els. keydown_listeners el = 0"
    and "length (filter is_switcher els) = 1"
  shows "if key = ''Enter'' \<or> key = '' ''
         then \<exists>s'. keydown_event (initThemeSwitchers doc) target key default_action s
                      = Inr (True, s')
                \<and> toggleTheme s = Inr (getTheme s', s')
                \<and> getTheme s' \<noteq> getTheme s
                \<and> dispatched s' = dispatched s @ [getTheme s']
         else keydown_event (initThemeSwitchers doc) target key default_action s
                = (case default_action s of Inl e \<Rightarrow> Inl e | Inr s'' \<Rightarrow> Inr (False, s''))"
proof -
  have path: "event_path (initThemeSwitchers doc) target = Some (map bind_if_switcher els)"
    by (simp add: event_path_initThemeSwitchers assms(1))
  have "sum_list (map keydown_listeners (map bind_if_switcher els)) = Suc 0"
    using keydown_listeners_after_binding [OF assms(2)] assms(3) by simp
  then have bubble: "bubble_keydown (map bind_if_switcher els) key (False, s)
      = (case keydown_listener key s of
           Inl e \<Rightarrow> Inl e
         | Inr (prevented, s') \<Rightarrow> Inr (prevented, s'))"
    by (simp add: bubble_keydown_count split: sum.splits)
  show ?thesis
  proof (cases "key = ''Enter'' \<or> key = '' ''")
    case True
    obtain s' where t: "toggleTheme s = Inr (getTheme s', s')"
      and n: "getTheme s' \<noteq> getTheme s"
      and d: "dispatched s' = dispatched s @ [getTheme s']"
      using toggleTheme_effect [of s] by blast
    from True t have "keydown_listener key s = Inr (True, s')"
      by (simp add: keydown_listener_effect)
    then have "keydown_event (initThemeSwitchers doc) target key default_action s
        = Inr (True, s')"
      by (simp add: keydown_event_def path bubble)
    with True t n d show ?thesis
      by auto
  next
    case False
    then have "keydown_listener key s = Inr (False, s)"
      by (simp add: keydown_listener_effect)
    then have "keydown_event (initThemeSwitchers doc) target key default_action s
        = (case default_action s of Inl e \<Rightarrow> Inl e | Inr s'' \<Rightarrow> Inr (False, s''))"
      by (simp add: keydown_event_def path bubble)
    with False show ?thesis
      by simp
  qed
qed

text \<open>The amended C8 at the document with one switcher, for \<^verbatim>\<open>Enter\<close> and for the
  key \<^verbatim>\<open>a\<close>, where the browser's default action leaves the page alone.\<close>

theorem keydown_event_single_switcher_witness:
  "event_path single_doc [0] = Some [switcher_el, plain_el]
   \<and> keydown_listeners switcher_el = 0 \<and> keydown_listeners plain_el = 0
   \<and> length (filter is_switcher [switcher_el, plain_el]) = 1
   \<and> (\<exists>s'. keydown_event (initThemeSwitchers single_doc) [0] ''Enter'' Inr page0 = Inr (True, s')
         \<and> getTheme s' \<noteq> getTheme page0
         \<and> dispatched s' = [getTheme s'])
   \<and> keydown_event (initThemeSwitchers single_doc) [0] ''a'' Inr page0 = Inr (False, page0)"
proof -
  have p: "event_path single_doc [0] = Some [switcher_el, plain_el]"
    by (simp add: single_doc_def)
  have z: "\<forall>el \<in> set [switcher_el, plain_el]. keydown_listeners el = 0"
    by (simp add: switcher_el_def plain_el_def)
  have o: "length (filter is_switcher [switcher_el, plain_el]) = 1"
    by (simp add: is_switcher_def switcher_el_def plain_el_def)
  have d: "dispatched page0 = []"
    by (simp add: page0_def)
  have e: "\<exists>s'. keydown_event (initThemeSwitchers single_doc) [0] ''Enter'' Inr page0 = Inr (True, s')
         \<and> getTheme s' \<noteq> getTheme page0
         \<and> dispatched s' = [getTheme s']"
    using keydown_event_single_switcher [OF p z o, of "''Enter''" Inr page0] d by auto
  have a: "keydown_event (initThemeSwitchers single_doc) [0] ''a'' Inr page0 = Inr (False, page0)"
    using keydown_event_single_switcher [OF p z o, of "''a''" Inr page0] by simp
  have z': "keydown_listeners switcher_el = 0 \<and> keydown_listeners plain_el = 0"
    by (simp add: switcher_el_def plain_el_def)
  from p z' o e a show ?thesis
    by blast
qed



text \<open>
  C10. \<open>applyTheme\<close>, the statement run at load, \<open>toggleTheme\<close> and \<open>setTheme\<close> always
  return a page whose marker, when present, is exactly \<^verbatim>\<open>dark\<close>, from any page. The
  change listener either raises on refused storage, before it touched the page, or
  returns a page that keeps this property of the marker. Where the property holds,
  \<open>getTheme\<close> returns \<^verbatim>\<open>dark\<close> exactly when the marker is present; and \<open>getTheme\<close> always
  returns one of the two themes.
\<close>

theorem marker_invariant:
  "marker_ok (applyTheme t s)
   \<and> (\<exists>s'. startup s = Inr s' \<and> marker_ok s')
   \<and> (\<exists>r s'. toggleTheme s = Inr (r, s') \<and> marker_ok s')
   \<and> (\<exists>s'. setTheme t s = Inr s' \<and> marker_ok s')
   \<and> (system_change_listener m s = Inl SecurityError \<and> access_denied (localStorage s)
        \<or> (\<exists>s'. system_change_listener m s = Inr s' \<and> (marker_ok s \<longrightarrow> marker_ok s')))
   \<and> (marker_ok s \<longrightarrow> (getTheme s = ''dark'') = (data_theme s \<noteq> None))
   \<and> (getTheme s = ''dark'' \<or> getTheme s = ''light'')"
proof -
  have apply_ok: "marker_ok (applyTheme u p)" for u p
    by (simp add: marker_ok_def applyTheme_def)
  have save_ok: "\<exists>s'. saveTheme u p = Inr s' \<and> marker_ok s'" if "marker_ok p" for u p
  proof -
    obtain s' where s': "saveTheme u p = Inr s'"
      using saveTheme_returns by blast
    then have "data_theme s' = data_theme p"
      by (rule saveTheme_data_theme)
    with that have "marker_ok s'"
      by (simp add: marker_ok_def)
    with s' show ?thesis
      by blast
  qed
  have c1: "marker_ok (applyTheme t s)"
    by (rule apply_ok)
  have c2: "\<exists>s'. startup s = Inr s' \<and> marker_ok s'"
  proof -
    obtain r s1 where "getStoredTheme s = Inr (r, s1)"
      using getStoredTheme_returns by blast
    then have "startup s = Inr (applyTheme r s1)"
      by (simp add: startup_def)
    then show ?thesis
      using apply_ok [of r s1] by blast
  qed
  have c3: "\<exists>r s'. toggleTheme s = Inr (r, s') \<and> marker_ok s'"
  proof -
    define n where "n = (if data_theme s = Some ''dark'' then THEME_LIGHT else THEME_DARK)"
    obtain s1 where s1: "saveTheme n (applyTheme n s) = Inr s1" and ok: "marker_ok s1"
      using save_ok [OF apply_ok] by blast
    from s1 have "toggleTheme s = Inr (n, dispatch_themechange n s1)"
      by (simp add: toggleTheme_def Let_def n_def)
    moreover from ok have "marker_ok (dispatch_themechange n s1)"
      by (simp add: dispatch_themechange_def marker_ok_def)
    ultimately show ?thesis
      by blast
  qed
  have c4: "\<exists>s'. setTheme t s = Inr s' \<and> marker_ok s'"
    unfolding setTheme_def by (rule save_ok [OF apply_ok])
  have c5: "system_change_listener m s = Inl SecurityError \<and> access_denied (localStorage s)
        \<or> (\<exists>s'. system_change_listener m s = Inr s' \<and> (marker_ok s \<longrightarrow> marker_ok s'))"
  proof (cases "access_denied (localStorage s)")
    case True
    then show ?thesis
      by (simp add: system_change_listener_def getItem_def)
  next
    case False
    show ?thesis
    proof (cases "falsy (map_of (items (localStorage s)) STORAGE_KEY)")
      case True
      with False have "system_change_listener m s
          = Inr (applyTheme (if m then THEME_DARK else THEME_LIGHT) s)"
        by (simp add: system_change_listener_def getItem_def)
      then show ?thesis
        using apply_ok [of "if m then THEME_DARK else THEME_LIGHT" s] by simp
    next
      case nf: False
      with False have "system_change_listener m s = Inr s"
        by (simp add: system_change_listener_def getItem_def)
      then show ?thesis
        by simp
    qed
  qed
  have c6: "marker_ok s \<longrightarrow> (getTheme s = ''dark'') = (data_theme s \<noteq> None)"
    by (cases "data_theme s") (simp_all add: marker_ok_def getTheme_def THEME_DARK_def THEME_LIGHT_def)
  have c7: "getTheme s = ''dark'' \<or> getTheme s = ''light''"
    by (simp add: getTheme_def THEME_DARK_def THEME_LIGHT_def)
  show ?thesis
    by (intro conjI c1 c2 c3 c4 c5 c6 c7)
qed

text \<open>C10 at the example page after \<^verbatim>\<open>dark\<close> was applied.\<close>

theorem marker_invariant_witness:
  "marker_ok (applyTheme ''dark'' page0)
   \<and> (\<exists>s'. system_change_listener False (applyTheme ''dark'' page0) = Inr s' \<and> marker_ok s')
   \<and> getTheme (applyTheme ''dark'' page0) = ''dark''
   \<and> data_theme (applyTheme ''dark'' page0) \<noteq> None"
proof -
  define p where "p = applyTheme ''dark'' page0"
  have m: "marker_ok p"
    by (simp add: p_def marker_ok_def applyTheme_def)
  have a: "\<not> access_denied (localStorage p)"
    by (simp add: p_def applyTheme_def page0_def store0_def)
  have d: "data_theme p \<noteq> None"
    by (simp add: p_def applyTheme_def THEME_DARK_def)
  note inv = marker_invariant [of "''dark''" p False]
  from inv a have "\<exists>s'. system_change_listener False p = Inr s' \<and> (marker_ok p \<longrightarrow> marker_ok s')"
    by blast
  with m have l: "\<exists>s'. system_change_listener False p = Inr s' \<and> marker_ok s'"
    by blast
  from inv m d have g: "getTheme p = ''dark''"
    by blast
  from m l g d show ?thesis
    unfolding p_def by blast
qed

end
